theory Spec2Isabelle
  imports Complex_Main
begin

section \<open>The wire of QSchematic: data\<close>

text \<open>
  The embedding follows \<^verbatim>\<open>src/lib/items/wire.cpp\<close>. A wire keeps an ordered
  vector of grid points relative to its own grid position, a bounding rectangle that
  is derived from them, and the transient indices of a running drag.

  Coordinates are C \<^verbatim>\<open>int\<close>s in the source and \<^typ>\<open>int\<close> here: arithmetic
  overflow of coordinates is not modelled. A \<^verbatim>\<open>QVector2D\<close> holds two single
  precision numbers, a \<^verbatim>\<open>QPointF\<close> and a \<^verbatim>\<open>QRectF\<close> hold double precision
  numbers; every conversion and every operation on them rounds, and the model rounds
  where the source does.
\<close>

datatype QPoint = QPoint (px: int) (py: int)

definition qp_add :: "QPoint \<Rightarrow> QPoint \<Rightarrow> QPoint" where
  "qp_add a b = QPoint (px a + px b) (py a + py b)"

definition qp_sub :: "QPoint \<Rightarrow> QPoint \<Rightarrow> QPoint" where
  "qp_sub a b = QPoint (px a - px b) (py a - py b)"

section \<open>Floating point numbers\<close>

text \<open>
  A binary floating point number is \<open>mant * 2 ^ expo\<close>. The model has the rounding
  of IEEE 754 arithmetic, to the nearest number with \<open>p\<close> significant bits and to the
  even one of two nearest, with 24 bits for \<^verbatim>\<open>float\<close> and 53 bits for \<^verbatim>\<open>double\<close>.
  It has no bound on the exponent, no infinity and no NaN: the numbers of this
  program, made from 32 bit integers by a few operations, stay far from the limits.
\<close>

datatype Dyadic = Dyadic (mant: int) (expo: int)

function bitLength :: "int \<Rightarrow> nat" where
  "bitLength n = (if n \<le> 0 then 0 else Suc (bitLength (n div 2)))"
  by pat_completeness auto

termination
  by (relation "measure nat") auto

declare bitLength.simps [simp del]

definition roundTo :: "nat \<Rightarrow> Dyadic \<Rightarrow> Dyadic" where
  "roundTo p x =
     (let a = \<bar>mant x\<bar>; s = bitLength a - p
      in if s = 0 then x
         else
           let q = a div 2 ^ s; r = a mod 2 ^ s; h = 2 ^ (s - 1);
               q' = (if r > h \<or> (r = h \<and> odd q) then q + 1 else q)
           in Dyadic (sgn (mant x) * q') (expo x + int s))"

definition dy_add :: "Dyadic \<Rightarrow> Dyadic \<Rightarrow> Dyadic" where
  "dy_add x y =
     (let e = min (expo x) (expo y)
      in Dyadic (mant x * 2 ^ nat (expo x - e) + mant y * 2 ^ nat (expo y - e)) e)"

definition dy_sub :: "Dyadic \<Rightarrow> Dyadic \<Rightarrow> Dyadic" where
  "dy_sub x y = dy_add x (Dyadic (- mant y) (expo y))"

definition dy_mul :: "Dyadic \<Rightarrow> Dyadic \<Rightarrow> Dyadic" where
  "dy_mul x y = Dyadic (mant x * mant y) (expo x + expo y)"

definition dy_abs :: "Dyadic \<Rightarrow> Dyadic" where
  "dy_abs x = Dyadic \<bar>mant x\<bar> (expo x)"

definition dy_le :: "Dyadic \<Rightarrow> Dyadic \<Rightarrow> bool" where
  "dy_le x y =
     (let e = min (expo x) (expo y)
      in mant x * 2 ^ nat (expo x - e) \<le> mant y * 2 ^ nat (expo y - e))"

definition dy_min :: "Dyadic \<Rightarrow> Dyadic \<Rightarrow> Dyadic" where
  "dy_min x y = (if dy_le x y then x else y)"

text \<open>The conversion of a floating point number to \<^verbatim>\<open>int\<close> drops the fraction.\<close>

definition dy_trunc :: "Dyadic \<Rightarrow> int" where
  "dy_trunc x =
     (if expo x \<ge> 0 then mant x * 2 ^ nat (expo x)
      else sgn (mant x) * (\<bar>mant x\<bar> div 2 ^ nat (- expo x)))"

text \<open>
  The square root in double precision, correctly rounded. \<open>isqrt\<close> is the integer
  square root; the root of the mantissa, scaled up by \<open>4 ^ 64\<close>, is taken with one
  more bit that says whether anything was cut off, and rounded to 53 bits.
\<close>

function isqrt :: "int \<Rightarrow> int" where
  "isqrt n =
     (if n < 2 then n
      else let r = 2 * isqrt (n div 4) in if (r + 1) * (r + 1) \<le> n then r + 1 else r)"
  by pat_completeness auto

termination
  by (relation "measure nat") auto

declare isqrt.simps [simp del]

definition sqrt_double :: "Dyadic \<Rightarrow> Dyadic" where
  "sqrt_double x =
     (let j = (if even (expo x) then 0 else 1);
          m = mant x * 2 ^ j * 4 ^ 64;
          r = isqrt m;
          sticky = (if r * r = m then 0 else 1)
      in roundTo 53 (Dyadic (2 * r + sticky) ((expo x - int j) div 2 - 65)))"

text \<open>The operations of \<^verbatim>\<open>float\<close>, and the conversions from \<^verbatim>\<open>int\<close>.\<close>

definition fadd :: "Dyadic \<Rightarrow> Dyadic \<Rightarrow> Dyadic" where
  "fadd x y = roundTo 24 (dy_add x y)"

definition fsub :: "Dyadic \<Rightarrow> Dyadic \<Rightarrow> Dyadic" where
  "fsub x y = roundTo 24 (dy_sub x y)"

definition fmul :: "Dyadic \<Rightarrow> Dyadic \<Rightarrow> Dyadic" where
  "fmul x y = roundTo 24 (dy_mul x y)"

definition toFloat :: "int \<Rightarrow> Dyadic" where
  "toFloat n = roundTo 24 (Dyadic n 0)"

definition toDouble :: "int \<Rightarrow> Dyadic" where
  "toDouble n = roundTo 53 (Dyadic n 0)"

text \<open>
  \<^verbatim>\<open>qRound(float d)\<close> of Qt 5:
  \<^verbatim>\<open>d >= 0.0f ? int(d + 0.5f) : int(d - float(int(d-1)) + 0.5f) + int(d-1)\<close>.
\<close>

definition qRound :: "Dyadic \<Rightarrow> int" where
  "qRound d =
     (if dy_le (Dyadic 0 0) d then dy_trunc (fadd d (Dyadic 1 (- 1)))
      else dy_trunc (fadd (fsub d (toFloat (dy_trunc (fsub d (Dyadic 1 0))))) (Dyadic 1 (- 1)))
           + dy_trunc (fsub d (Dyadic 1 0)))"

section \<open>Points and vectors in floating point\<close>

text \<open>
  \<^verbatim>\<open>QPointF * qreal\<close>, for a point with whole coordinates and a whole factor: each
  product is a multiplication in double precision. Its value is a whole number again,
  and the model keeps that number.
\<close>

definition qp_scale :: "QPoint \<Rightarrow> int \<Rightarrow> QPoint" where
  "qp_scale a g =
     QPoint (dy_trunc (roundTo 53 (dy_mul (toDouble (px a)) (toDouble g))))
            (dy_trunc (roundTo 53 (dy_mul (toDouble (py a)) (toDouble g))))"

text \<open>
  \<^verbatim>\<open>QVector2D\<close>, two \<^verbatim>\<open>float\<close>s. The vectors of this program have whole
  components: a component of the model is the whole number that the \<^verbatim>\<open>float\<close> is
  equal to. Building a vector from \<^verbatim>\<open>int\<close>s or from a \<^verbatim>\<open>QPoint\<close> converts each
  coordinate to \<^verbatim>\<open>float\<close>, which rounds it to 24 bits, and \<^verbatim>\<open>toPoint()\<close> reads
  each component back with \<^verbatim>\<open>qRound\<close>.
\<close>

datatype QVector2D = QVector2D (vx: int) (vy: int)

definition floatOfInt :: "int \<Rightarrow> int" where
  "floatOfInt n = dy_trunc (toFloat n)"

definition vec_of_ints :: "int \<Rightarrow> int \<Rightarrow> QVector2D" where
  "vec_of_ints x y = QVector2D (floatOfInt x) (floatOfInt y)"

definition vec_of_point :: "QPoint \<Rightarrow> QVector2D" where
  "vec_of_point p = QVector2D (floatOfInt (px p)) (floatOfInt (py p))"

definition vec_toPoint :: "QVector2D \<Rightarrow> QPoint" where
  "vec_toPoint v = QPoint (qRound (Dyadic (vx v) 0)) (qRound (Dyadic (vy v) 0))"

text \<open>
  Modelled from the spec: the class \<^verbatim>\<open>WirePoint\<close> (wirepoint.h is absent), a
  \<^verbatim>\<open>QPoint\<close> with a junction flag.
\<close>

record WirePoint =
  toPoint :: QPoint
  isJunction :: bool

text \<open>
  Modelled from the spec: the constructor \<^verbatim>\<open>WirePoint(const QPoint&)\<close>. It takes a
  position only, and the point it builds is not a junction.
\<close>

definition mkWirePoint :: "QPoint \<Rightarrow> WirePoint" where
  "mkWirePoint p = \<lparr>toPoint = p, isJunction = False\<rparr>"

text \<open>
  Modelled from the spec: \<^verbatim>\<open>operator==\<close> on wire points. Equality is by position
  only; the junction flag is not part of a point's identity.
\<close>

definition wp_eq :: "WirePoint \<Rightarrow> WirePoint \<Rightarrow> bool" where
  "wp_eq a b = (toPoint a = toPoint b)"

text \<open>
  Modelled from the spec: \<^verbatim>\<open>WirePoint::setIsJunction\<close>.
\<close>

definition setIsJunction :: "WirePoint \<Rightarrow> bool \<Rightarrow> WirePoint" where
  "setIsJunction p b = p\<lparr>isJunction := b\<rparr>"

datatype QRectF = QRectF (rectTopLeft: QPoint) (rectBottomRight: QPoint)

text \<open>
  Modelled from the spec: the class \<^verbatim>\<open>Line\<close> (line.h is absent), the segment
  between two grid points.
\<close>

datatype Line = Line (p1: QPoint) (p2: QPoint)

text \<open>
  Modelled from the spec: \<^verbatim>\<open>Line::isHorizontal\<close>, both ends have the same y.
\<close>

definition isHorizontal :: "Line \<Rightarrow> bool" where
  "isHorizontal l = (py (p1 l) = py (p2 l))"

text \<open>
  Modelled from the spec: \<^verbatim>\<open>Line::isVertical\<close>, both ends have the same x.
\<close>

definition isVertical :: "Line \<Rightarrow> bool" where
  "isVertical l = (px (p1 l) = px (p2 l))"

text \<open>
  The signal \<^verbatim>\<open>pointMoved(*this, point)\<close>. A listener receives a reference to the
  wire and the point; what it can read through the reference when the signal is
  emitted is the wire's point vector of that moment, which the model records.
\<close>

datatype Signal = pointMoved (sig_wire: "WirePoint list") (sig_point: WirePoint)

text \<open>
  The wire. \<open>gridPoint\<close> is \<^verbatim>\<open>Item::gridPoint()\<close>, the wire's own position on the
  grid, and \<open>gridSize\<close> is \<^verbatim>\<open>_settings.gridSize\<close>; both belong to the base class
  and no function of wire.cpp changes them. \<open>emitted\<close> is the log of the signals
  emitted so far, oldest first.
\<close>

record Wire =
  gridPoint :: QPoint
  gridSize :: int
  points :: "WirePoint list"
  rect :: QRectF
  pointToMoveIndex :: int
  lineSegmentToMoveIndex :: int
  prevMousePos :: QPoint
  emitted :: "Signal list"

definition emit :: "Wire \<Rightarrow> WirePoint \<Rightarrow> Wire" where
  "emit w p = w\<lparr>emitted := emitted w @ [pointMoved (points w) p]\<rparr>"

section \<open>The bounding rectangle\<close>

definition INT_MAX :: int where
  "INT_MAX = 2147483647"

definition INT_MIN :: int where
  "INT_MIN = - 2147483648"

definition topLeftStep :: "QPoint \<Rightarrow> WirePoint \<Rightarrow> QPoint" where
  "topLeftStep acc point =
     (let acc1 = (if px (toPoint point) < px acc then QPoint (px (toPoint point)) (py acc) else acc)
      in if py (toPoint point) < py acc1 then QPoint (px acc1) (py (toPoint point)) else acc1)"

definition bottomRightStep :: "QPoint \<Rightarrow> WirePoint \<Rightarrow> QPoint" where
  "bottomRightStep acc point =
     (let acc1 = (if px (toPoint point) > px acc then QPoint (px (toPoint point)) (py acc) else acc)
      in if py (toPoint point) > py acc1 then QPoint (px acc1) (py (toPoint point)) else acc1)"

definition calculateBoundingRect :: "Wire \<Rightarrow> Wire" where
  "calculateBoundingRect w =
     (let topLeft = foldl topLeftStep (QPoint INT_MAX INT_MAX) (points w);
          bottomRight = foldl bottomRightStep (QPoint INT_MIN INT_MIN) (points w)
      in w\<lparr>rect := QRectF (qp_scale topLeft (gridSize w)) (qp_scale bottomRight (gridSize w))\<rparr>)"

text \<open>
  \<^verbatim>\<open>Wire::update()\<close> recomputes the rectangle and asks the scene for a repaint;
  \<^verbatim>\<open>prepareGeometryChange()\<close> tells the scene that the geometry is about to change.
  Neither the request nor the announcement touches the wire, so \<open>update\<close> is the
  recomputation and the announcement is left out.
\<close>

definition update :: "Wire \<Rightarrow> Wire" where
  "update w = calculateBoundingRect w"

section \<open>Adding, removing and moving points\<close>

definition prependPoint :: "Wire \<Rightarrow> QPoint \<Rightarrow> Wire" where
  "prependPoint w point =
     (let w1 = w\<lparr>points := mkWirePoint (qp_sub point (gridPoint w)) # points w\<rparr>;
          w2 = update (calculateBoundingRect w1)
      in emit w2 (hd (points w2)))"

definition appendPoint :: "Wire \<Rightarrow> QPoint \<Rightarrow> Wire" where
  "appendPoint w point =
     (let w1 = w\<lparr>points := points w @ [mkWirePoint (qp_sub point (gridPoint w))]\<rparr>;
          w2 = update (calculateBoundingRect w1)
      in emit w2 (last (points w2)))"

definition insertPoint :: "Wire \<Rightarrow> int \<Rightarrow> QPoint \<Rightarrow> Wire" where
  "insertPoint w index point =
     (if index < 0 \<or> index \<ge> int (length (points w)) then w
      else
        let w1 = w\<lparr>points := take (nat index) (points w)
                     @ [mkWirePoint (qp_sub point (gridPoint w))]
                     @ drop (nat index) (points w)\<rparr>;
            w2 = update (calculateBoundingRect w1)
        in emit w2 (points w2 ! nat index))"

definition removeFirstPoint :: "Wire \<Rightarrow> Wire" where
  "removeFirstPoint w =
     (if int (length (points w)) \<le> 0 then w
      else update (calculateBoundingRect (w\<lparr>points := tl (points w)\<rparr>)))"

definition removeLastPoint :: "Wire \<Rightarrow> Wire" where
  "removeLastPoint w =
     (if int (length (points w)) \<le> 0 then w
      else update (calculateBoundingRect (w\<lparr>points := butlast (points w)\<rparr>)))"

definition removeAll :: "WirePoint list \<Rightarrow> WirePoint \<Rightarrow> WirePoint list" where
  "removeAll xs t = filter (\<lambda>a. \<not> wp_eq a t) xs"

definition removePoint :: "Wire \<Rightarrow> QPoint \<Rightarrow> Wire" where
  "removePoint w point =
     update (calculateBoundingRect
       (w\<lparr>points := removeAll (points w) (mkWirePoint (qp_sub point (gridPoint w)))\<rparr>))"

definition movePointBy :: "Wire \<Rightarrow> int \<Rightarrow> QVector2D \<Rightarrow> Wire" where
  "movePointBy w index moveBy =
     (if index < 0 \<or> index > int (length (points w)) - 1 then w
      else
        let w1 = w\<lparr>points := (points w)[nat index :=
                     mkWirePoint (qp_add (toPoint (points w ! nat index)) (vec_toPoint moveBy))]\<rparr>;
            w2 = update (calculateBoundingRect w1)
        in emit w2 (points w2 ! nat index))"

definition movePointTo :: "Wire \<Rightarrow> int \<Rightarrow> QPoint \<Rightarrow> Wire" where
  "movePointTo w index moveTo =
     (if index < 0 \<or> index > int (length (points w)) - 1 then w
      else
        let w1 = w\<lparr>points := (points w)[nat index :=
                     mkWirePoint (qp_sub moveTo (gridPoint w))]\<rparr>;
            w2 = update (calculateBoundingRect w1)
        in emit w2 (points w2 ! nat index))"

definition moveLineSegmentBy :: "Wire \<Rightarrow> int \<Rightarrow> QVector2D \<Rightarrow> Wire" where
  "moveLineSegmentBy w index moveBy =
     (if index < 0 \<or> index > int (length (points w)) - 1 then w
      else movePointBy (movePointBy w index moveBy) (index + 1) moveBy)"

definition setPointIsJunction :: "Wire \<Rightarrow> int \<Rightarrow> bool \<Rightarrow> Wire" where
  "setPointIsJunction w index isJ =
     (if index < 0 \<or> index > int (length (points w)) - 1 then w
      else update (w\<lparr>points := (points w)[nat index :=
                     setIsJunction (points w ! nat index) isJ]\<rparr>))"

definition lineSegments :: "Wire \<Rightarrow> Line list" where
  "lineSegments w =
     (if int (length (points w)) < 2 then []
      else map (\<lambda>i. Line (qp_add (gridPoint w) (toPoint (points w ! i)))
                          (qp_add (gridPoint w) (toPoint (points w ! (i + 1)))))
               [0 ..< length (points w) - 1])"

text \<open>
  \<^verbatim>\<open>Wire::points()\<close>, the points in absolute grid coordinates.
\<close>

definition absolutePoints :: "Wire \<Rightarrow> QPoint list" where
  "absolutePoints w = map (\<lambda>wirePoint. qp_add (gridPoint w) (toPoint wirePoint)) (points w)"

text \<open>
  Modelled from the spec: the state of a new wire (wire.h is absent). The constructor
  sets the two drag indices to \<open>-1\<close>; the members it does not mention are default
  constructed (an empty vector, the null rectangle, the origin). The grid position
  and the grid size come from the base class.
\<close>

definition newWire :: "QPoint \<Rightarrow> int \<Rightarrow> Wire" where
  "newWire gp gs =
     \<lparr>gridPoint = gp, gridSize = gs, points = [],
      rect = QRectF (QPoint 0 0) (QPoint 0 0),
      pointToMoveIndex = - 1, lineSegmentToMoveIndex = - 1,
      prevMousePos = QPoint 0 0, emitted = []\<rparr>"

section \<open>Removing duplicate points\<close>

text \<open>
  \<^verbatim>\<open>removeDuplicatePoints\<close> changes \<^verbatim>\<open>_points\<close> inside a range-based \<^verbatim>\<open>for\<close> over
  \<^verbatim>\<open>_points\<close> itself, through the loop variable \<^verbatim>\<open>const WirePoint& point\<close>, which
  is a reference to an element of the vector and not a copy. What the loop does
  therefore depends on the aliasing, and the model makes the store explicit.

  The declaration of \<^verbatim>\<open>_points\<close> is in wire.h, which is absent; it is taken to be
  a \<^verbatim>\<open>QVector<WirePoint>\<close> of Qt 5, the type in which wire.cpp hands out copies of
  the wire points. A \<^verbatim>\<open>QVector\<close> keeps its elements in one contiguous buffer, and
  erasing an element neither moves nor shrinks the buffer. The range-based loop
  reads \<^verbatim>\<open>begin()\<close> and \<^verbatim>\<open>end()\<close> once, so it visits the buffer slots
  \<open>0 ..< n\<close> for the size \<open>n\<close> the vector had when the loop started, and \<open>point\<close>
  is slot \<open>p\<close> of the buffer, read anew at every use. \<^verbatim>\<open>removeOne(t)\<close> looks for the
  first element equal to \<open>t\<close>; when there is one it moves the elements behind it one
  slot down and decrements the size, and the buffer stays where it is: the slots from
  the new size on keep the values they had. When there is none it does nothing and
  returns false. The source ignores the result and counts the call as a removal.
\<close>

record QVector =
  buffer :: "WirePoint list"
  vsize :: nat

definition live :: "QVector \<Rightarrow> WirePoint list" where
  "live v = take (vsize v) (buffer v)"

definition countOf :: "WirePoint list \<Rightarrow> WirePoint \<Rightarrow> nat" where
  "countOf xs t = length (filter (\<lambda>a. wp_eq a t) xs)"

fun indexOf :: "WirePoint list \<Rightarrow> WirePoint \<Rightarrow> nat option" where
  "indexOf [] t = None"
| "indexOf (a # as) t = (if wp_eq a t then Some 0 else map_option Suc (indexOf as t))"

definition removeAt :: "QVector \<Rightarrow> nat \<Rightarrow> QVector" where
  "removeAt v i =
     \<lparr>buffer = take i (buffer v) @ drop (Suc i) (live v) @ drop (vsize v - 1) (buffer v),
      vsize = vsize v - 1\<rparr>"

definition removeOne :: "QVector \<Rightarrow> WirePoint \<Rightarrow> QVector" where
  "removeOne v t = (case indexOf (live v) t of None \<Rightarrow> v | Some i \<Rightarrow> removeAt v i)"

text \<open>
  The inner loop \<^verbatim>\<open>for (int i = 0; i < count-1; i++)\<close> at slot \<open>p\<close>: \<open>k\<close> rounds
  are left, and each round passes the present value of slot \<open>p\<close> to \<open>removeOne\<close>.
\<close>

fun innerLoop :: "nat \<Rightarrow> nat \<Rightarrow> QVector \<times> int \<Rightarrow> QVector \<times> int" where
  "innerLoop 0 p s = s"
| "innerLoop (Suc k) p (v, removedCount) =
     innerLoop k p (removeOne v (buffer v ! p), removedCount + 1)"

definition removeLoopBody :: "nat \<Rightarrow> QVector \<times> int \<Rightarrow> QVector \<times> int" where
  "removeLoopBody p s =
     (let v = fst s; count = countOf (live v) (buffer v ! p)
      in if count > 1 then innerLoop (count - 1) p s else s)"

definition removeLoop :: "WirePoint list \<Rightarrow> int \<Rightarrow> WirePoint list \<times> int" where
  "removeLoop pts removedCount =
     (let s = fold removeLoopBody [0 ..< length pts]
                (\<lparr>buffer = pts, vsize = length pts\<rparr>, removedCount)
      in (live (fst s), snd s))"

definition allUnique :: "WirePoint list \<Rightarrow> bool" where
  "allUnique pts = list_all (\<lambda>point. \<not> countOf pts point > 1) pts"

text \<open>
  The \<^verbatim>\<open>do ... while (!allUnique)\<close> loop. A round that leaves duplicates and
  removes nothing leaves the vector as it was, so the source would repeat that round
  for ever: the model answers \<open>None\<close> then, and \<open>Some\<close> of the points and the count
  when the loop ends.
\<close>

function doWhile :: "WirePoint list \<Rightarrow> int \<Rightarrow> (WirePoint list \<times> int) option" where
  "doWhile pts removedCount =
     (let r = removeLoop pts removedCount
      in if allUnique (fst r) then Some r
         else if length (fst r) < length pts then doWhile (fst r) (snd r)
         else None)"
  by pat_completeness auto

termination
  by (relation "measure (\<lambda>(pts, removedCount). length pts)") (auto split: prod.splits)

declare doWhile.simps [simp del]

text \<open>
  The invariant of the store: the vector's size never exceeds the length of its
  buffer.
\<close>

definition vec_ok :: "QVector \<Rightarrow> bool" where
  "vec_ok v = (vsize v \<le> length (buffer v))"

definition removeDuplicatePoints :: "Wire \<Rightarrow> (Wire \<times> int) option" where
  "removeDuplicatePoints w =
     map_option (\<lambda>r. (w\<lparr>points := fst r\<rparr>, snd r)) (doWhile (points w) 0)"

section \<open>Removing obsolete points\<close>

text \<open>
  The test of \<^verbatim>\<open>removeObsoletePoints\<close> is computed in single precision:
  \<^verbatim>\<open>QVector2D::dotProduct\<close> is two multiplications and an addition of
  \<^verbatim>\<open>float\<close>s, \<^verbatim>\<open>QVector2D::length\<close> of Qt 5 squares and adds in \<^verbatim>\<open>double\<close>,
  takes the root there and converts it to \<^verbatim>\<open>float\<close>, and
  \<^verbatim>\<open>qFuzzyCompare(float p1, float p2)\<close> is
  \<^verbatim>\<open>qAbs(p1 - p2) * 100000.f <= qMin(qAbs(p1), qAbs(p2))\<close>.
\<close>

definition dotProduct :: "QVector2D \<Rightarrow> QVector2D \<Rightarrow> Dyadic" where
  "dotProduct a b =
     fadd (fmul (Dyadic (vx a) 0) (Dyadic (vx b) 0)) (fmul (Dyadic (vy a) 0) (Dyadic (vy b) 0))"

definition vlength :: "QVector2D \<Rightarrow> Dyadic" where
  "vlength a =
     (let len = roundTo 53 (dy_add (roundTo 53 (dy_mul (Dyadic (vx a) 0) (Dyadic (vx a) 0)))
                                   (roundTo 53 (dy_mul (Dyadic (vy a) 0) (Dyadic (vy a) 0))))
      in roundTo 24 (sqrt_double len))"

definition qFuzzyCompare :: "Dyadic \<Rightarrow> Dyadic \<Rightarrow> bool" where
  "qFuzzyCompare a b =
     dy_le (fmul (dy_abs (fsub a b)) (toFloat 100000)) (dy_min (dy_abs a) (dy_abs b))"

definition isObsolete :: "QPoint \<Rightarrow> QPoint \<Rightarrow> QPoint \<Rightarrow> bool" where
  "isObsolete a b c =
     (let v1 = vec_of_point (qp_sub b a);
          v2 = vec_of_point (qp_sub c b);
          dot = dotProduct v1 v2;
          absProduct = fmul (vlength v1) (vlength v2)
      in qFuzzyCompare dot absProduct)"

definition pointsToRemove :: "WirePoint list \<Rightarrow> WirePoint list" where
  "pointsToRemove pts =
     concat (map (\<lambda>i. if isObsolete (toPoint (pts ! (i - 2))) (toPoint (pts ! (i - 1)))
                                     (toPoint (pts ! i))
                       then [pts ! (i - 1)] else [])
                 [2 ..< length pts])"

definition removeObsoletePoints :: "Wire \<Rightarrow> Wire \<times> int" where
  "removeObsoletePoints w =
     (if int (length (points w)) < 3 then (w, 0)
      else
        let toRemove = pointsToRemove (points w)
        in (foldl (\<lambda>w' point. removePoint w' (toPoint point)) w toRemove,
            int (length toRemove)))"

section \<open>Dragging\<close>

text \<open>
  \<^verbatim>\<open>mouseMoveEvent\<close> receives the pointer position on the grid (the source converts
  the event's scene position with the settings of the base class) and the state of
  the control key. \<^verbatim>\<open>lineSegments().at(i)\<close> with \<open>i\<close> beyond the list is a failed
  assertion in Qt. With nothing grabbed the event goes to the base class.
\<close>

datatype error = IndexOutOfRange

definition mouseMoveEvent :: "Wire \<Rightarrow> QPoint \<Rightarrow> bool \<Rightarrow> error + Wire" where
  "mouseMoveEvent w curPos ctrlPressed =
     (if pointToMoveIndex w > - 1 then
        Inr ((movePointTo w (pointToMoveIndex w) curPos)\<lparr>prevMousePos := curPos\<rparr>)
      else if lineSegmentToMoveIndex w > - 1 then
        (if lineSegmentToMoveIndex w \<ge> int (length (lineSegments w)) then Inl IndexOutOfRange
         else
           let line = lineSegments w ! nat (lineSegmentToMoveIndex w);
               moveLineBy =
                 (if isHorizontal line then vec_of_ints 0 (py curPos - py (prevMousePos w))
                  else if isVertical line then vec_of_ints (px curPos - px (prevMousePos w)) 0
                  else if ctrlPressed then vec_of_point (qp_sub curPos (prevMousePos w))
                  else vec_of_ints 0 0)
           in Inr ((moveLineSegmentBy w (lineSegmentToMoveIndex w) moveLineBy)
                     \<lparr>prevMousePos := curPos\<rparr>))
      else Inr (w\<lparr>prevMousePos := curPos\<rparr>))"

section \<open>Example wires\<close>

text \<open>
  Wires built with the public operations from a new wire, used below as concrete
  inputs. \<open>segmentWire\<close> is the horizontal segment from \<open>(0,0)\<close> to \<open>(1,0)\<close>.
  \<open>wire4\<close> visits \<open>(0,0)\<close>, \<open>(9,9)\<close> and then \<open>(0,0)\<close> twice more.
  \<open>wire9\<close> runs through the three corners \<open>(0,0)\<close>, \<open>(1,0)\<close>, \<open>(1,1)\<close> more
  than once. \<open>straightWire gp\<close> is a wire at grid position \<open>gp\<close> whose stored
  points are \<open>(0,0), (0,5), (0,10)\<close>, and \<open>straightWireAbsolute gp\<close> one whose
  points in absolute coordinates are these. \<open>cornerWire\<close> turns a corner at
  \<open>(5,0)\<close>. \<open>doubledWire\<close> runs from \<open>(0,0)\<close> up to \<open>(0,10)\<close> and back to
  \<open>(0,5)\<close>. \<open>dragWire\<close> has a horizontal segment followed by a vertical one; its
  first segment is grabbed, and the pointer was last seen at \<open>(2,0)\<close>.
\<close>

definition segmentWire :: Wire where
  "segmentWire = foldl appendPoint (newWire (QPoint 0 0) 20) [QPoint 0 0, QPoint 1 0]"

definition wire4 :: Wire where
  "wire4 = foldl appendPoint (newWire (QPoint 0 0) 20)
             [QPoint 0 0, QPoint 9 9, QPoint 0 0, QPoint 0 0]"

definition wire9 :: Wire where
  "wire9 = foldl appendPoint (newWire (QPoint 0 0) 20)
             [QPoint 0 0, QPoint 1 0, QPoint 1 1, QPoint 0 0, QPoint 1 0, QPoint 1 1,
              QPoint 1 0, QPoint 1 0, QPoint 1 1]"

definition straightWire :: "QPoint \<Rightarrow> Wire" where
  "straightWire gp = foldl appendPoint (newWire gp 20)
     [qp_add gp (QPoint 0 0), qp_add gp (QPoint 0 5), qp_add gp (QPoint 0 10)]"

definition straightWireAbsolute :: "QPoint \<Rightarrow> Wire" where
  "straightWireAbsolute gp = foldl appendPoint (newWire gp 20) [QPoint 0 0, QPoint 0 5, QPoint 0 10]"

definition cornerWire :: Wire where
  "cornerWire = foldl appendPoint (newWire (QPoint 0 0) 20) [QPoint 0 0, QPoint 5 0, QPoint 5 5]"

definition doubledWire :: Wire where
  "doubledWire = foldl appendPoint (newWire (QPoint 0 0) 20)
                   [QPoint 0 0, QPoint 0 5, QPoint 0 10, QPoint 0 5]"

definition dragWire :: Wire where
  "dragWire = (foldl appendPoint (newWire (QPoint 0 0) 20) [QPoint 0 0, QPoint 5 0, QPoint 5 5])
     \<lparr>lineSegmentToMoveIndex := 0, prevMousePos := QPoint 2 0\<rparr>"

text \<open>
  \<open>staleWire\<close> is a wire state, not built with the operations: one point, and a
  stored rectangle that is not the rectangle of that point.
\<close>

definition staleWire :: Wire where
  "staleWire = (newWire (QPoint 0 0) 20)
     \<lparr>points := [mkWirePoint (QPoint 0 0)], rect := QRectF (QPoint 0 0) (QPoint 180 180)\<rparr>"

section \<open>Evaluation on concrete points\<close>

text \<open>
  The scaling of a point and the test for an obsolete point, stated for points that
  are given by their coordinates. These are the equations used to evaluate the
  operations on the example wires.
\<close>

lemma qp_scale_code [code]:
  "qp_scale (QPoint x y) g =
     QPoint (dy_trunc (roundTo 53 (dy_mul (toDouble x) (toDouble g))))
            (dy_trunc (roundTo 53 (dy_mul (toDouble y) (toDouble g))))"
  by (simp add: qp_scale_def)

lemma isObsolete_code [code]:
  "isObsolete (QPoint x1 y1) (QPoint x2 y2) (QPoint x3 y3) =
     (let v1 = vec_of_point (QPoint (x2 - x1) (y2 - y1));
          v2 = vec_of_point (QPoint (x3 - x2) (y3 - y2))
      in qFuzzyCompare (dotProduct v1 v2) (fmul (vlength v1) (vlength v2)))"
  by (simp add: isObsolete_def qp_sub_def Let_def)

section \<open>What the operations leave alone\<close>

lemma calculateBoundingRect_fields:
  "points (calculateBoundingRect w) = points w"
  "gridPoint (calculateBoundingRect w) = gridPoint w"
  "gridSize (calculateBoundingRect w) = gridSize w"
  "emitted (calculateBoundingRect w) = emitted w"
  "pointToMoveIndex (calculateBoundingRect w) = pointToMoveIndex w"
  "lineSegmentToMoveIndex (calculateBoundingRect w) = lineSegmentToMoveIndex w"
  "prevMousePos (calculateBoundingRect w) = prevMousePos w"
  by (simp_all add: calculateBoundingRect_def Let_def)

lemma calculateBoundingRect_idem:
  "calculateBoundingRect (calculateBoundingRect w) = calculateBoundingRect w"
  by (simp add: calculateBoundingRect_def Let_def)

lemma calculateBoundingRect_emitted_update:
  "calculateBoundingRect (w\<lparr>emitted := e\<rparr>) = (calculateBoundingRect w)\<lparr>emitted := e\<rparr>"
  by (simp add: calculateBoundingRect_def Let_def)

lemma rect_calculateBoundingRect_cong:
  "points w = points w' \<Longrightarrow> gridSize w = gridSize w' \<Longrightarrow>
   rect (calculateBoundingRect w) = rect (calculateBoundingRect w')"
  by (simp add: calculateBoundingRect_def Let_def)

lemma movePointBy_in_range:
  assumes "0 \<le> index" "index < int (length (points w))"
  shows "points (movePointBy w index d) =
           (points w)[nat index := mkWirePoint (qp_add (toPoint (points w ! nat index)) (vec_toPoint d))]"
    and "emitted (movePointBy w index d) =
           emitted w @ [pointMoved (points (movePointBy w index d))
                          (mkWirePoint (qp_add (toPoint (points w ! nat index)) (vec_toPoint d)))]"
    and "rect (movePointBy w index d) = rect (calculateBoundingRect (movePointBy w index d))"
    and "gridPoint (movePointBy w index d) = gridPoint w"
    and "gridSize (movePointBy w index d) = gridSize w"
  using assms
  by (simp_all add: movePointBy_def Let_def update_def emit_def calculateBoundingRect_fields
        calculateBoundingRect_idem calculateBoundingRect_emitted_update)

lemma movePointBy_out_of_range:
  "index < 0 \<or> index \<ge> int (length (points w)) \<Longrightarrow> movePointBy w index d = w"
  by (auto simp add: movePointBy_def)

lemma emit_fields:
  "points (emit w p) = points w"
  "rect (emit w p) = rect w"
  "emitted (emit w p) = emitted w @ [pointMoved (points w) p]"
  by (simp_all add: emit_def)

lemma movePointTo_in_range:
  assumes "0 \<le> index" "index < int (length (points w))"
  shows "points (movePointTo w index p) =
           (points w)[nat index := mkWirePoint (qp_sub p (gridPoint w))]"
    and "emitted (movePointTo w index p) =
           emitted w @ [pointMoved (points (movePointTo w index p)) (mkWirePoint (qp_sub p (gridPoint w)))]"
  using assms
  by (simp_all add: movePointTo_def Let_def update_def emit_def calculateBoundingRect_fields)

lemma removePoint_fields:
  "emitted (removePoint w p) = emitted w"
  "gridPoint (removePoint w p) = gridPoint w"
  "gridSize (removePoint w p) = gridSize w"
  "points (removePoint w p) = removeAll (points w) (mkWirePoint (qp_sub p (gridPoint w)))"
  by (simp_all add: removePoint_def update_def calculateBoundingRect_fields)

lemma foldl_removePoint_emitted:
  "emitted (foldl (\<lambda>w' point. removePoint w' (toPoint point)) w ps) = emitted w"
  by (induction ps arbitrary: w) (simp_all add: removePoint_fields)

lemma removeObsoletePoints_emitted:
  "emitted (fst (removeObsoletePoints w)) = emitted w"
  by (simp add: removeObsoletePoints_def Let_def foldl_removePoint_emitted)

lemma removeDuplicatePoints_emitted:
  "removeDuplicatePoints w = Some r \<Longrightarrow> emitted (fst r) = emitted w"
  by (auto simp add: removeDuplicatePoints_def)


lemma moveLineSegmentBy_in_range:
  assumes i0: "0 \<le> index" and r: "index + 1 < int (length (points w))"
  shows "moveLineSegmentBy w index d = movePointBy (movePointBy w index d) (index + 1) d"
    and "points (movePointBy w index d) =
        (points w)[nat index := mkWirePoint (qp_add (toPoint (points w ! nat index)) (vec_toPoint d))]"
    and "points (moveLineSegmentBy w index d) =
        (points w)[nat index := mkWirePoint (qp_add (toPoint (points w ! nat index)) (vec_toPoint d)),
                   nat index + 1 := mkWirePoint (qp_add (toPoint (points w ! (nat index + 1))) (vec_toPoint d))]"
    and "emitted (moveLineSegmentBy w index d) =
        emitted w @
        [pointMoved (points (movePointBy w index d))
           (mkWirePoint (qp_add (toPoint (points w ! nat index)) (vec_toPoint d))),
         pointMoved (points (moveLineSegmentBy w index d))
           (mkWirePoint (qp_add (toPoint (points w ! (nat index + 1))) (vec_toPoint d)))]"
proof -
  from i0 r have i1: "index < int (length (points w))"
    and j0: "0 \<le> index + 1" and j1: "index + 1 < int (length (points (movePointBy w index d)))"
    by (simp_all add: movePointBy_in_range(1))
  have n: "nat (index + 1) = nat index + 1" using i0 by simp
  show eq: "moveLineSegmentBy w index d = movePointBy (movePointBy w index d) (index + 1) d"
    using i0 r by (simp add: moveLineSegmentBy_def)
  show pts1: "points (movePointBy w index d) =
        (points w)[nat index := mkWirePoint (qp_add (toPoint (points w ! nat index)) (vec_toPoint d))]"
    using i0 i1 by (rule movePointBy_in_range(1))
  show "points (moveLineSegmentBy w index d) =
        (points w)[nat index := mkWirePoint (qp_add (toPoint (points w ! nat index)) (vec_toPoint d)),
                   nat index + 1 := mkWirePoint (qp_add (toPoint (points w ! (nat index + 1))) (vec_toPoint d))]"
    unfolding eq movePointBy_in_range(1)[OF j0 j1] n pts1 by simp
  show "emitted (moveLineSegmentBy w index d) =
        emitted w @
        [pointMoved (points (movePointBy w index d))
           (mkWirePoint (qp_add (toPoint (points w ! nat index)) (vec_toPoint d))),
         pointMoved (points (moveLineSegmentBy w index d))
           (mkWirePoint (qp_add (toPoint (points w ! (nat index + 1))) (vec_toPoint d)))]"
    unfolding eq movePointBy_in_range(2)[OF j0 j1] movePointBy_in_range(2)[OF i0 i1] n
    by (simp add: pts1)
qed

section \<open>The bounding rectangle is a function of the positions\<close>

lemma foldl_topLeftStep_cong:
  "map toPoint xs = map toPoint ys \<Longrightarrow> foldl topLeftStep a xs = foldl topLeftStep a ys"
proof (induction xs arbitrary: ys a)
  case Nil
  then show ?case by simp
next
  case (Cons x xs)
  then obtain y ys' where ys: "ys = y # ys'" and xy: "toPoint x = toPoint y"
    and rest: "map toPoint xs = map toPoint ys'"
    by (cases ys) auto
  have "topLeftStep a x = topLeftStep a y" by (simp add: topLeftStep_def xy)
  then show ?case using Cons.IH[OF rest] ys by simp
qed

lemma foldl_bottomRightStep_cong:
  "map toPoint xs = map toPoint ys \<Longrightarrow> foldl bottomRightStep a xs = foldl bottomRightStep a ys"
proof (induction xs arbitrary: ys a)
  case Nil
  then show ?case by simp
next
  case (Cons x xs)
  then obtain y ys' where ys: "ys = y # ys'" and xy: "toPoint x = toPoint y"
    and rest: "map toPoint xs = map toPoint ys'"
    by (cases ys) auto
  have "bottomRightStep a x = bottomRightStep a y" by (simp add: bottomRightStep_def xy)
  then show ?case using Cons.IH[OF rest] ys by simp
qed

lemma rect_calculateBoundingRect_positions:
  "map toPoint (points w) = map toPoint (points w') \<Longrightarrow> gridSize w = gridSize w' \<Longrightarrow>
   rect (calculateBoundingRect w) = rect (calculateBoundingRect w')"
  by (simp add: calculateBoundingRect_def Let_def
        foldl_topLeftStep_cong[of "points w" "points w'"]
        foldl_bottomRightStep_cong[of "points w" "points w'"])

lemma map_toPoint_setIsJunction:
  "map toPoint (xs[n := setIsJunction (xs ! n) b]) = map toPoint xs"
proof (cases "n < length xs")
  case True
  then have "(map toPoint xs)[n := map toPoint xs ! n] = map toPoint xs"
    by (simp only: list_update_id)
  then show ?thesis using True by (simp add: map_update setIsJunction_def)
next
  case False
  then show ?thesis by (simp add: list_update_beyond)
qed

lemma topLeftStep_min:
  "topLeftStep acc point =
     QPoint (min (px acc) (px (toPoint point))) (min (py acc) (py (toPoint point)))"
  by (cases acc) (simp add: topLeftStep_def Let_def min_def)

lemma bottomRightStep_max:
  "bottomRightStep acc point =
     QPoint (max (px acc) (px (toPoint point))) (max (py acc) (py (toPoint point)))"
  by (cases acc) (simp add: bottomRightStep_def Let_def max_def)

lemma foldl_topLeftStep_fold:
  "foldl topLeftStep acc pts =
     QPoint (fold min (map (\<lambda>p. px (toPoint p)) pts) (px acc))
            (fold min (map (\<lambda>p. py (toPoint p)) pts) (py acc))"
  by (induction pts arbitrary: acc) (simp_all add: topLeftStep_min min.commute)

lemma foldl_bottomRightStep_fold:
  "foldl bottomRightStep acc pts =
     QPoint (fold max (map (\<lambda>p. px (toPoint p)) pts) (px acc))
            (fold max (map (\<lambda>p. py (toPoint p)) pts) (py acc))"
  by (induction pts arbitrary: acc) (simp_all add: bottomRightStep_max max.commute)

lemma fold_min_bound:
  fixes xs :: "int list"
  assumes "xs \<noteq> []" "\<forall>x \<in> set xs. x \<le> b"
  shows "fold min xs b = Min (set xs)"
proof -
  have "fold min xs b = Min (set (b # xs))" by (simp only: Min.set_eq_fold)
  also have "\<dots> = min b (Min (set xs))" using assms(1) by simp
  also have "\<dots> = Min (set xs)"
  proof -
    have "Min (set xs) \<in> set xs" using assms(1) by (simp add: Min_in)
    then have "Min (set xs) \<le> b" using assms(2) by blast
    then show ?thesis by (simp add: min_def)
  qed
  finally show ?thesis .
qed

lemma fold_max_bound:
  fixes xs :: "int list"
  assumes "xs \<noteq> []" "\<forall>x \<in> set xs. b \<le> x"
  shows "fold max xs b = Max (set xs)"
proof -
  have "fold max xs b = Max (set (b # xs))" by (simp only: Max.set_eq_fold)
  also have "\<dots> = max b (Max (set xs))" using assms(1) by simp
  also have "\<dots> = Max (set xs)"
  proof -
    have "Max (set xs) \<in> set xs" using assms(1) by (simp add: Max_in)
    then have "b \<le> Max (set xs)" using assms(2) by blast
    then show ?thesis by (simp add: max_def)
  qed
  finally show ?thesis .
qed

text \<open>
  \<open>calculateBoundingRect\<close> is right on a wire with points: the rectangle runs from
  the componentwise minimum to the componentwise maximum of the positions, scaled by
  the grid size.
\<close>

lemma calculateBoundingRect_min_max:
  assumes ne: "points w \<noteq> []"
    and rng: "\<forall>p \<in> set (points w).
                INT_MIN \<le> px (toPoint p) \<and> px (toPoint p) \<le> INT_MAX \<and>
                INT_MIN \<le> py (toPoint p) \<and> py (toPoint p) \<le> INT_MAX"
  shows "rect (calculateBoundingRect w) =
     QRectF (qp_scale (QPoint (Min (set (map (\<lambda>p. px (toPoint p)) (points w))))
                              (Min (set (map (\<lambda>p. py (toPoint p)) (points w))))) (gridSize w))
            (qp_scale (QPoint (Max (set (map (\<lambda>p. px (toPoint p)) (points w))))
                              (Max (set (map (\<lambda>p. py (toPoint p)) (points w))))) (gridSize w))"
proof -
  let ?xs = "map (\<lambda>p. px (toPoint p)) (points w)"
  let ?ys = "map (\<lambda>p. py (toPoint p)) (points w)"
  have nx: "?xs \<noteq> []" and ny: "?ys \<noteq> []" using ne by simp_all
  have bx: "\<forall>x \<in> set ?xs. x \<le> INT_MAX" "\<forall>x \<in> set ?xs. INT_MIN \<le> x"
    and bnd: "\<forall>y \<in> set ?ys. y \<le> INT_MAX" "\<forall>y \<in> set ?ys. INT_MIN \<le> y"
    using rng by auto
  show ?thesis
    unfolding calculateBoundingRect_def Let_def foldl_topLeftStep_fold foldl_bottomRightStep_fold
    by (simp add: fold_min_bound[OF nx bx(1)] fold_min_bound[OF ny bnd(1)]
          fold_max_bound[OF nx bx(2)] fold_max_bound[OF ny bnd(2)])
qed

text \<open>
  Every function that changes the points recomputes the rectangle before it returns,
  except \<open>removeDuplicatePoints\<close>, which leaves the stored one as it is.
\<close>

lemma rect_up_to_date:
  "rect (prependPoint w p) = rect (calculateBoundingRect (prependPoint w p))"
  "rect (appendPoint w p) = rect (calculateBoundingRect (appendPoint w p))"
  "0 \<le> i \<and> i < int (length (points w)) \<Longrightarrow>
     rect (insertPoint w i p) = rect (calculateBoundingRect (insertPoint w i p))"
  "points w \<noteq> [] \<Longrightarrow> rect (removeFirstPoint w) = rect (calculateBoundingRect (removeFirstPoint w))"
  "points w \<noteq> [] \<Longrightarrow> rect (removeLastPoint w) = rect (calculateBoundingRect (removeLastPoint w))"
  "rect (removePoint w p) = rect (calculateBoundingRect (removePoint w p))"
  "0 \<le> i \<and> i < int (length (points w)) \<Longrightarrow>
     rect (movePointBy w i d) = rect (calculateBoundingRect (movePointBy w i d))"
  "0 \<le> i \<and> i < int (length (points w)) \<Longrightarrow>
     rect (movePointTo w i p) = rect (calculateBoundingRect (movePointTo w i p))"
  "0 \<le> i \<and> i < int (length (points w)) \<Longrightarrow>
     rect (setPointIsJunction w i b) = rect (calculateBoundingRect (setPointIsJunction w i b))"
  by (simp_all add: prependPoint_def appendPoint_def insertPoint_def removeFirstPoint_def
        removeLastPoint_def removePoint_def movePointBy_def movePointTo_def
        setPointIsJunction_def Let_def update_def emit_def
        calculateBoundingRect_idem calculateBoundingRect_emitted_update)

lemma removeDuplicatePoints_rect:
  "removeDuplicatePoints w = Some r \<Longrightarrow> rect (fst r) = rect w"
  by (auto simp add: removeDuplicatePoints_def)

section \<open>The loop of removeDuplicatePoints ends\<close>

text \<open>
  What holds of \<open>removeDuplicatePoints\<close>: the loop ends on every wire, and when it
  has ended no two points have the same position. A round over a vector with a
  duplicate removes at least one element, at the first slot whose value occurs twice,
  and no round makes the vector longer.
\<close>

lemma indexOf_Some_less: "indexOf xs t = Some i \<Longrightarrow> i < length xs"
  by (induction xs arbitrary: i) (auto split: if_splits)

lemma indexOf_None_count: "indexOf xs t = None \<Longrightarrow> countOf xs t = 0"
  by (induction xs) (auto simp add: countOf_def split: if_splits)

lemma removeOne_ok:
  assumes "vec_ok v"
  shows "vec_ok (removeOne v t)"
    and "length (buffer (removeOne v t)) = length (buffer v)"
    and "vsize (removeOne v t) \<le> vsize v"
    and "0 < countOf (live v) t \<Longrightarrow> vsize (removeOne v t) < vsize v"
proof -
  have len: "length (live v) = vsize v" using assms by (simp add: live_def vec_ok_def)
  show "vec_ok (removeOne v t)"
    using assms indexOf_Some_less[of "live v" t] len
    by (auto simp add: removeOne_def removeAt_def vec_ok_def split: option.splits)
  show "length (buffer (removeOne v t)) = length (buffer v)"
    using assms indexOf_Some_less[of "live v" t] len
    by (auto simp add: removeOne_def removeAt_def vec_ok_def split: option.splits)
  show "vsize (removeOne v t) \<le> vsize v"
    by (auto simp add: removeOne_def removeAt_def split: option.splits)
  show "0 < countOf (live v) t \<Longrightarrow> vsize (removeOne v t) < vsize v"
    using indexOf_Some_less[of "live v" t] indexOf_None_count[of "live v" t] len
    by (auto simp add: removeOne_def removeAt_def split: option.splits)
qed

lemma innerLoop_ok:
  "vec_ok (fst s) \<Longrightarrow>
   vec_ok (fst (innerLoop k p s)) \<and>
   length (buffer (fst (innerLoop k p s))) = length (buffer (fst s)) \<and>
   vsize (fst (innerLoop k p s)) \<le> vsize (fst s)"
proof (induction k p s rule: innerLoop.induct)
  case (1 p s)
  then show ?case by simp
next
  case (2 k p v removedCount)
  then have ok: "vec_ok v" by simp
  note r = removeOne_ok[OF ok, of "buffer v ! p"]
  from "2.IH" r(1) have
    "vec_ok (fst (innerLoop k p (removeOne v (buffer v ! p), removedCount + 1))) \<and>
     length (buffer (fst (innerLoop k p (removeOne v (buffer v ! p), removedCount + 1))))
       = length (buffer (removeOne v (buffer v ! p))) \<and>
     vsize (fst (innerLoop k p (removeOne v (buffer v ! p), removedCount + 1)))
       \<le> vsize (removeOne v (buffer v ! p))"
    by simp
  then show ?case using r(2) r(3) by simp
qed

lemma removeLoopBody_ok:
  "vec_ok (fst s) \<Longrightarrow>
   vec_ok (fst (removeLoopBody p s)) \<and>
   length (buffer (fst (removeLoopBody p s))) = length (buffer (fst s)) \<and>
   vsize (fst (removeLoopBody p s)) \<le> vsize (fst s)"
  using innerLoop_ok[of s] by (simp add: removeLoopBody_def Let_def)

lemma fold_removeLoopBody_ok:
  "vec_ok (fst s) \<Longrightarrow>
   vec_ok (fst (fold removeLoopBody ps s)) \<and>
   length (buffer (fst (fold removeLoopBody ps s))) = length (buffer (fst s)) \<and>
   vsize (fst (fold removeLoopBody ps s)) \<le> vsize (fst s)"
proof (induction ps arbitrary: s)
  case Nil
  then show ?case by simp
next
  case (Cons p ps)
  note b = removeLoopBody_ok[OF Cons.prems, of p]
  from Cons.IH[of "removeLoopBody p s"] b show ?case by auto
qed

lemma removeLoopBody_progress:
  assumes ok: "vec_ok (fst s)" and c: "1 < countOf (live (fst s)) (buffer (fst s) ! p)"
  shows "vsize (fst (removeLoopBody p s)) < vsize (fst s)"
proof -
  obtain v rc where s: "s = (v, rc)" by (cases s)
  from c s obtain k where k: "countOf (live v) (buffer v ! p) - 1 = Suc k"
    by (cases "countOf (live v) (buffer v ! p) - 1") auto
  from ok s have okv: "vec_ok v" by simp
  have lt: "vsize (removeOne v (buffer v ! p)) < vsize v"
    using removeOne_ok(4)[OF okv, of "buffer v ! p"] c s by simp
  have "vsize (fst (innerLoop k p (removeOne v (buffer v ! p), rc + 1)))
          \<le> vsize (removeOne v (buffer v ! p))"
    using innerLoop_ok[of "(removeOne v (buffer v ! p), rc + 1)" k p] removeOne_ok(1)[OF okv]
    by simp
  then show ?thesis using lt c s k by (simp add: removeLoopBody_def Let_def)
qed

lemma fold_removeLoopBody_progress:
  fixes pts :: "WirePoint list" and rc :: int
  defines "s0 \<equiv> (\<lparr>buffer = pts, vsize = length pts\<rparr>, rc)"
  assumes "b \<le> length pts"
  shows "(fold removeLoopBody [0 ..< b] s0 = s0 \<and> list_all (\<lambda>p. \<not> 1 < countOf pts (pts ! p)) [0 ..< b])
         \<or> vsize (fst (fold removeLoopBody [0 ..< b] s0)) < length pts"
  using assms(2)
proof (induction b)
  case 0
  then show ?case by simp
next
  case (Suc b)
  have ok0: "vec_ok (fst s0)" by (simp add: s0_def vec_ok_def)
  let ?s = "fold removeLoopBody [0 ..< b] s0"
  have step: "fold removeLoopBody [0 ..< Suc b] s0 = removeLoopBody b ?s" by simp
  from Suc have "(?s = s0 \<and> list_all (\<lambda>p. \<not> 1 < countOf pts (pts ! p)) [0 ..< b])
         \<or> vsize (fst ?s) < length pts" by simp
  then show ?case
  proof
    assume same: "?s = s0 \<and> list_all (\<lambda>p. \<not> 1 < countOf pts (pts ! p)) [0 ..< b]"
    show ?thesis
    proof (cases "1 < countOf pts (pts ! b)")
      case True
      then have "1 < countOf (live (fst s0)) (buffer (fst s0) ! b)"
        by (simp add: s0_def live_def)
      from removeLoopBody_progress[OF ok0 this]
      have "vsize (fst (removeLoopBody b s0)) < length pts" by (simp add: s0_def)
      then show ?thesis using same step by simp
    next
      case False
      then have "removeLoopBody b s0 = s0"
        by (simp add: removeLoopBody_def Let_def s0_def live_def)
      then show ?thesis using same step False by simp
    qed
  next
    assume lt: "vsize (fst ?s) < length pts"
    have "vec_ok (fst ?s)" using fold_removeLoopBody_ok[OF ok0] by simp
    from removeLoopBody_ok[OF this, of b] lt step show ?thesis by simp
  qed
qed

lemma allUnique_nth:
  "allUnique pts = list_all (\<lambda>p. \<not> 1 < countOf pts (pts ! p)) [0 ..< length pts]"
  by (auto simp add: allUnique_def list_all_iff all_set_conv_all_nth)

lemma removeLoop_progress:
  assumes "\<not> allUnique (fst (removeLoop pts rc))"
  shows "length (fst (removeLoop pts rc)) < length pts"
proof -
  let ?init = "(\<lparr>buffer = pts, vsize = length pts\<rparr>, rc)"
  let ?s = "fold removeLoopBody [0 ..< length pts] ?init"
  have ok0: "vec_ok (fst ?init)" by (simp add: vec_ok_def)
  have res: "fst (removeLoop pts rc) = live (fst ?s)" by (simp add: removeLoop_def Let_def)
  from fold_removeLoopBody_progress[of "length pts" pts rc]
  have "(?s = ?init \<and> allUnique pts) \<or> vsize (fst ?s) < length pts"
    by (simp add: allUnique_nth)
  then show ?thesis
  proof
    assume "?s = ?init \<and> allUnique pts"
    then have "fst (removeLoop pts rc) = pts \<and> allUnique pts" by (simp add: res live_def)
    with assms show ?thesis by simp
  next
    assume lt: "vsize (fst ?s) < length pts"
    note f = fold_removeLoopBody_ok[OF ok0, of "[0 ..< length pts]"]
    have "length (live (fst ?s)) = vsize (fst ?s)"
      using f by (simp add: live_def vec_ok_def)
    then show ?thesis using lt res by simp
  qed
qed

lemma doWhile_returns: "\<exists>r. doWhile pts rc = Some r \<and> allUnique (fst r)"
proof (induction pts rc rule: doWhile.induct)
  case (1 pts removedCount)
  show ?case
  proof (cases "allUnique (fst (removeLoop pts removedCount))")
    case True
    then show ?thesis by (subst doWhile.simps) (simp add: Let_def)
  next
    case False
    from removeLoop_progress[OF False]
    have lt: "length (fst (removeLoop pts removedCount)) < length pts" .
    from "1.IH"[OF refl False lt] show ?thesis
      using False lt by (subst doWhile.simps) (simp add: Let_def)
  qed
qed

lemma countOf_count_list: "countOf xs t = count_list (map toPoint xs) (toPoint t)"
  by (induction xs) (simp_all add: countOf_def wp_eq_def)

lemma count_list_le_1_distinct:
  "(\<forall>q \<in> set ys. count_list ys q \<le> 1) = distinct ys"
proof (induction ys)
  case Nil
  then show ?case by simp
next
  case (Cons y ys)
  have "(\<forall>q \<in> set (y # ys). count_list (y # ys) q \<le> 1) \<longleftrightarrow>
        count_list ys y = 0 \<and> (\<forall>q \<in> set ys. q \<noteq> y \<and> count_list ys q \<le> 1)"
    by (auto simp add: count_list_0_iff)
  also have "\<dots> \<longleftrightarrow> y \<notin> set ys \<and> (\<forall>q \<in> set ys. count_list ys q \<le> 1)"
    by (auto simp add: count_list_0_iff)
  finally show ?case using Cons.IH by simp
qed

lemma allUnique_distinct: "allUnique pts = distinct (map toPoint pts)"
proof -
  have "allUnique pts \<longleftrightarrow> (\<forall>q \<in> set (map toPoint pts). count_list (map toPoint pts) q \<le> 1)"
    by (auto simp add: allUnique_def list_all_iff countOf_count_list not_less)
  then show ?thesis by (simp only: count_list_le_1_distinct)
qed

lemma removeDuplicatePoints_returns_distinct:
  "\<exists>w' n. removeDuplicatePoints w = Some (w', n) \<and> distinct (map toPoint (points w'))"
proof -
  from doWhile_returns[of "points w" 0] obtain r
    where r: "doWhile (points w) 0 = Some r" and u: "allUnique (fst r)" by blast
  have "removeDuplicatePoints w = Some (w\<lparr>points := fst r\<rparr>, snd r)"
    unfolding removeDuplicatePoints_def r by simp
  moreover have "distinct (map toPoint (points (w\<lparr>points := fst r\<rparr>)))"
    using u by (simp add: allUnique_distinct)
  ultimately show ?thesis by blast
qed

section \<open>Whole numbers in floating point\<close>

text \<open>
  A whole number below \<open>2 ^ 24\<close> in absolute value is a \<^verbatim>\<open>float\<close>, and
  \<^verbatim>\<open>qRound\<close> gives a whole \<^verbatim>\<open>float\<close> of at most \<open>2 ^ 23\<close> in absolute value back
  as it is: up to there the way of an \<^verbatim>\<open>int\<close> through a \<^verbatim>\<open>QVector2D\<close> and back
  loses nothing.
\<close>

lemma bitLength_le: "0 \<le> n \<Longrightarrow> n < 2 ^ k \<Longrightarrow> bitLength n \<le> k"
proof (induction k arbitrary: n)
  case 0
  then have "n = 0" by simp
  then show ?case by (simp add: bitLength.simps)
next
  case (Suc k)
  show ?case
  proof (cases "n \<le> 0")
    case True
    then show ?thesis by (simp add: bitLength.simps)
  next
    case False
    from Suc.prems have "0 \<le> n div 2" and "n div 2 < 2 ^ k" by simp_all
    then have "bitLength (n div 2) \<le> k" by (rule Suc.IH)
    with False show ?thesis by (subst bitLength.simps) simp
  qed
qed

lemma roundTo_exact: "\<bar>mant x\<bar> < 2 ^ p \<Longrightarrow> roundTo p x = x"
  using bitLength_le[of "\<bar>mant x\<bar>" p] by (simp add: roundTo_def Let_def)

lemma dy_trunc_whole: "dy_trunc (Dyadic n 0) = n"
  by (simp add: dy_trunc_def)

lemma toFloat_exact: "\<bar>n\<bar> < 16777216 \<Longrightarrow> toFloat n = Dyadic n 0"
  by (simp add: toFloat_def roundTo_exact)

lemma floatOfInt_exact: "\<bar>n\<bar> < 16777216 \<Longrightarrow> floatOfInt n = n"
  by (simp add: floatOfInt_def toFloat_exact dy_trunc_whole)

lemma qRound_pos:
  assumes "0 \<le> n" and "n < 8388608"
  shows "qRound (Dyadic n 0) = n"
proof -
  have le: "dy_le (Dyadic 0 0) (Dyadic n 0)" using assms by (simp add: dy_le_def)
  have add: "dy_add (Dyadic n 0) (Dyadic 1 (- 1)) = Dyadic (2 * n + 1) (- 1)"
    by (simp add: dy_add_def)
  have "fadd (Dyadic n 0) (Dyadic 1 (- 1)) = Dyadic (2 * n + 1) (- 1)"
    unfolding fadd_def add using assms by (intro roundTo_exact) simp
  moreover have "dy_trunc (Dyadic (2 * n + 1) (- 1)) = n"
    using assms by (simp add: dy_trunc_def)
  ultimately show ?thesis using le by (simp add: qRound_def)
qed

lemma qRound_neg:
  assumes "n < 0" and "- 8388608 \<le> n"
  shows "qRound (Dyadic n 0) = n"
proof -
  have le: "\<not> dy_le (Dyadic 0 0) (Dyadic n 0)" using assms by (simp add: dy_le_def)
  have "dy_sub (Dyadic n 0) (Dyadic 1 0) = Dyadic (n - 1) 0"
    by (simp add: dy_sub_def dy_add_def)
  then have s1: "fsub (Dyadic n 0) (Dyadic 1 0) = Dyadic (n - 1) 0"
    unfolding fsub_def using assms by (simp add: roundTo_exact)
  have t1: "toFloat (n - 1) = Dyadic (n - 1) 0"
    using assms by (intro toFloat_exact) simp
  have "dy_sub (Dyadic n 0) (Dyadic (n - 1) 0) = Dyadic 1 0"
    by (simp add: dy_sub_def dy_add_def)
  then have s2: "fsub (Dyadic n 0) (Dyadic (n - 1) 0) = Dyadic 1 0"
    unfolding fsub_def by (simp add: roundTo_exact)
  have a: "fadd (Dyadic 1 0) (Dyadic 1 (- 1)) = Dyadic 3 (- 1)"
    by code_simp
  have t: "dy_trunc (Dyadic 3 (- 1)) = 1" by code_simp
  show ?thesis using le by (simp add: qRound_def s1 dy_trunc_whole t1 s2 a t)
qed

lemma qRound_whole: "\<bar>n\<bar> \<le> 8388608 \<Longrightarrow> qRound (Dyadic n 0) = n"
proof -
  assume b: "\<bar>n\<bar> \<le> 8388608"
  have top: "qRound (Dyadic 8388608 0) = 8388608" by code_simp
  consider "n = 8388608" | "0 \<le> n" "n < 8388608" | "n < 0" "- 8388608 \<le> n"
    using b by linarith
  then show ?thesis
    by cases (simp_all add: top qRound_pos qRound_neg)
qed

lemma vec_toPoint_vertical:
  "\<bar>dy\<bar> \<le> 8388608 \<Longrightarrow> vec_toPoint (vec_of_ints 0 dy) = QPoint 0 dy"
  by (simp add: vec_toPoint_def vec_of_ints_def floatOfInt_exact qRound_whole)

lemma px_vec_toPoint_vertical: "px (vec_toPoint (vec_of_ints 0 dy)) = 0"
  by (simp add: vec_toPoint_def vec_of_ints_def floatOfInt_exact qRound_whole)

section \<open>The test for an obsolete point\<close>

text \<open>
  The test on the examples of the specification: the middle point of a straight run
  is obsolete, a corner is not, and neither is the point where the wire turns back.
  In single precision the test also accepts a bend that is shallow enough: the
  middle point of \<open>(0,0), (447,2), (460,2)\<close> is obsolete.
\<close>

lemma isObsolete_examples:
  "isObsolete (QPoint 0 0) (QPoint 0 5) (QPoint 0 10)"
  "\<not> isObsolete (QPoint 0 0) (QPoint 5 0) (QPoint 5 5)"
  "\<not> isObsolete (QPoint 0 0) (QPoint 0 10) (QPoint 0 5)"
  "isObsolete (QPoint 0 0) (QPoint 447 2) (QPoint 460 2)"
  by code_simp+

text \<open>
  On wires at the grid origin the two examples of the specification come out as it
  says: the middle point of the straight wire is removed, the corner is kept.
\<close>

lemma removeObsoletePoints_at_origin:
  "map toPoint (points (fst (removeObsoletePoints (straightWire (QPoint 0 0))))) = [QPoint 0 0, QPoint 0 10]"
  "snd (removeObsoletePoints (straightWire (QPoint 0 0))) = 1"
  "removeObsoletePoints cornerWire = (cornerWire, 0)"
  by code_simp+

text \<open>
  \<open>removeObsoletePoints\<close> leaves a wire with fewer than three points alone, and on
  a longer one it returns the number of points that the pass over the original
  points marked.
\<close>

lemma removeObsoletePoints_short:
  "int (length (points w)) < 3 \<Longrightarrow> removeObsoletePoints w = (w, 0)"
  by (simp add: removeObsoletePoints_def)

lemma removeObsoletePoints_result:
  "\<not> int (length (points w)) < 3 \<Longrightarrow>
   snd (removeObsoletePoints w) = int (length (pointsToRemove (points w)))"
  by (simp add: removeObsoletePoints_def Let_def)

section \<open>A pointer move with a grabbed segment\<close>

lemma qp_add_zero: "qp_add p (QPoint 0 0) = p"
  by (simp add: qp_add_def)

lemma mouseMoveEvent_segment:
  assumes np: "pointToMoveIndex w \<le> - 1"
    and i0: "0 \<le> lineSegmentToMoveIndex w"
    and i1: "lineSegmentToMoveIndex w + 1 < int (length (points w))"
  shows "mouseMoveEvent w curPos ctrlPressed =
     Inr ((moveLineSegmentBy w (lineSegmentToMoveIndex w)
            (let line = Line (qp_add (gridPoint w) (toPoint (points w ! nat (lineSegmentToMoveIndex w))))
                             (qp_add (gridPoint w) (toPoint (points w ! (nat (lineSegmentToMoveIndex w) + 1))))
             in if isHorizontal line then vec_of_ints 0 (py curPos - py (prevMousePos w))
                else if isVertical line then vec_of_ints (px curPos - px (prevMousePos w)) 0
                else if ctrlPressed then vec_of_point (qp_sub curPos (prevMousePos w))
                else vec_of_ints 0 0))
          \<lparr>prevMousePos := curPos\<rparr>)"
proof -
  from i0 i1 have n: "nat (lineSegmentToMoveIndex w) < length (points w) - 1"
    by (simp add: nat_less_iff)
  have len: "length (lineSegments w) = length (points w) - 1"
    by (simp add: lineSegments_def)
  have seg: "lineSegments w ! nat (lineSegmentToMoveIndex w) =
       Line (qp_add (gridPoint w) (toPoint (points w ! nat (lineSegmentToMoveIndex w))))
            (qp_add (gridPoint w) (toPoint (points w ! (nat (lineSegmentToMoveIndex w) + 1))))"
    using n by (auto simp add: lineSegments_def)
  have inr: "\<not> lineSegmentToMoveIndex w \<ge> int (length (lineSegments w))"
    using i1 len by simp
  show ?thesis
    using np i0 inr by (simp add: mouseMoveEvent_def seg Let_def)
qed

section \<open>The claims\<close>




text \<open>
  C2 fails on the code. \<open>removeDuplicatePoints\<close> never recomputes the rectangle. On
  \<open>wire4\<close>, whose rectangle is up to date, it leaves the single point \<open>(0,0)\<close> and the
  rectangle from \<open>(0,0)\<close> to \<open>(180,180)\<close>; the rectangle of that point is empty.
  (At slot 0 the count is 3; the first \<open>removeOne\<close> removes the point in slot 0, slot
  0 then holds \<open>(9,9)\<close>, and the second \<open>removeOne\<close> removes that.)
\<close>

theorem removeDuplicatePoints_stale_rect:
  "map toPoint (points wire4) = [QPoint 0 0, QPoint 9 9, QPoint 0 0, QPoint 0 0] \<and>
   rect wire4 = rect (calculateBoundingRect wire4) \<and>
   map_option (\<lambda>r. (map toPoint (points (fst r)), rect (fst r), rect (calculateBoundingRect (fst r))))
     (removeDuplicatePoints wire4)
   = Some ([QPoint 0 0], QRectF (QPoint 0 0) (QPoint 180 180), QRectF (QPoint 0 0) (QPoint 0 0))"
  by code_simp

text \<open>
  C3, as amended. Adding a point (\<open>prependPoint\<close>, \<open>appendPoint\<close>, \<open>insertPoint\<close>
  within range) and moving one (\<open>movePointBy\<close>, \<open>movePointTo\<close> within range) emits
  exactly one \<open>pointMoved\<close> signal, after the change, with the wire and the new or
  moved point; moving a segment emits one for each of its two end points. The removals (\<open>removeFirstPoint\<close>, \<open>removeLastPoint\<close>,
  \<open>removePoint\<close>, \<open>removeObsoletePoints\<close>, \<open>removeDuplicatePoints\<close>) and
  \<open>setPointIsJunction\<close> emit nothing.
\<close>

theorem pointMoved_emission:
  "emitted (prependPoint w p) =
     emitted w @ [pointMoved (points (prependPoint w p)) (mkWirePoint (qp_sub p (gridPoint w)))] \<and>
   points (prependPoint w p) = mkWirePoint (qp_sub p (gridPoint w)) # points w \<and>
   emitted (appendPoint w p) =
     emitted w @ [pointMoved (points (appendPoint w p)) (mkWirePoint (qp_sub p (gridPoint w)))] \<and>
   points (appendPoint w p) = points w @ [mkWirePoint (qp_sub p (gridPoint w))] \<and>
   (0 \<le> i \<and> i < int (length (points w)) \<longrightarrow>
      emitted (insertPoint w i p) =
        emitted w @ [pointMoved (points (insertPoint w i p)) (mkWirePoint (qp_sub p (gridPoint w)))] \<and>
      points (insertPoint w i p) ! nat i = mkWirePoint (qp_sub p (gridPoint w)) \<and>
      emitted (movePointBy w i d) =
        emitted w @ [pointMoved (points (movePointBy w i d)) (points (movePointBy w i d) ! nat i)] \<and>
      toPoint (points (movePointBy w i d) ! nat i) = qp_add (toPoint (points w ! nat i)) (vec_toPoint d) \<and>
      emitted (movePointTo w i p) =
        emitted w @ [pointMoved (points (movePointTo w i p)) (points (movePointTo w i p) ! nat i)] \<and>
      toPoint (points (movePointTo w i p) ! nat i) = qp_sub p (gridPoint w)) \<and>
   (0 \<le> i \<and> i + 1 < int (length (points w)) \<longrightarrow>
      emitted (moveLineSegmentBy w i d) =
        emitted w @
        [pointMoved (points (movePointBy w i d))
           (mkWirePoint (qp_add (toPoint (points w ! nat i)) (vec_toPoint d))),
         pointMoved (points (moveLineSegmentBy w i d))
           (mkWirePoint (qp_add (toPoint (points w ! (nat i + 1))) (vec_toPoint d)))]) \<and>
   emitted (removeFirstPoint w) = emitted w \<and>
   emitted (removeLastPoint w) = emitted w \<and>
   emitted (removePoint w p) = emitted w \<and>
   emitted (fst (removeObsoletePoints w)) = emitted w \<and>
   (\<exists>r. removeDuplicatePoints w = Some r \<and> emitted (fst r) = emitted w) \<and>
   emitted (setPointIsJunction w i b) = emitted w"
proof -
  have pre: "emitted (prependPoint w p) =
     emitted w @ [pointMoved (points (prependPoint w p)) (mkWirePoint (qp_sub p (gridPoint w)))]"
    "points (prependPoint w p) = mkWirePoint (qp_sub p (gridPoint w)) # points w"
    by (simp_all add: prependPoint_def Let_def update_def emit_def calculateBoundingRect_fields)
  have app: "emitted (appendPoint w p) =
     emitted w @ [pointMoved (points (appendPoint w p)) (mkWirePoint (qp_sub p (gridPoint w)))]"
    "points (appendPoint w p) = points w @ [mkWirePoint (qp_sub p (gridPoint w))]"
    by (simp_all add: appendPoint_def Let_def update_def emit_def calculateBoundingRect_fields)
  have rem: "emitted (removeFirstPoint w) = emitted w" "emitted (removeLastPoint w) = emitted w"
    "emitted (setPointIsJunction w i b) = emitted w"
    by (simp_all add: removeFirstPoint_def removeLastPoint_def setPointIsJunction_def update_def
          calculateBoundingRect_fields)
  have rng: "emitted (insertPoint w i p) =
        emitted w @ [pointMoved (points (insertPoint w i p)) (mkWirePoint (qp_sub p (gridPoint w)))] \<and>
      points (insertPoint w i p) ! nat i = mkWirePoint (qp_sub p (gridPoint w)) \<and>
      emitted (movePointBy w i d) =
        emitted w @ [pointMoved (points (movePointBy w i d)) (points (movePointBy w i d) ! nat i)] \<and>
      toPoint (points (movePointBy w i d) ! nat i) = qp_add (toPoint (points w ! nat i)) (vec_toPoint d) \<and>
      emitted (movePointTo w i p) =
        emitted w @ [pointMoved (points (movePointTo w i p)) (points (movePointTo w i p) ! nat i)] \<and>
      toPoint (points (movePointTo w i p) ! nat i) = qp_sub p (gridPoint w)"
    if r: "0 \<le> i \<and> i < int (length (points w))"
  proof -
    from r have i0: "0 \<le> i" and i1: "i < int (length (points w))"
      by simp_all
    from i0 i1 have n: "nat i < length (points w)"
      by (simp add: nat_less_iff)
    have ins: "points (insertPoint w i p) =
        take (nat i) (points w) @ [mkWirePoint (qp_sub p (gridPoint w))] @ drop (nat i) (points w)"
      "emitted (insertPoint w i p) =
        emitted w @ [pointMoved (points (insertPoint w i p)) (points (insertPoint w i p) ! nat i)]"
      using r by (simp_all add: insertPoint_def Let_def update_def emit_def calculateBoundingRect_fields)
    have at: "points (insertPoint w i p) ! nat i = mkWirePoint (qp_sub p (gridPoint w))"
      using n by (simp add: ins(1) nth_append)
    show ?thesis
      using n at ins(2)
      by (simp add: movePointBy_in_range[OF i0 i1] movePointTo_in_range[OF i0 i1] mkWirePoint_def)
  qed
  have dup: "\<exists>r. removeDuplicatePoints w = Some r \<and> emitted (fst r) = emitted w"
    using removeDuplicatePoints_returns_distinct[of w] removeDuplicatePoints_emitted[of w]
    by fastforce
  have seg: "emitted (moveLineSegmentBy w i d) =
        emitted w @
        [pointMoved (points (movePointBy w i d))
           (mkWirePoint (qp_add (toPoint (points w ! nat i)) (vec_toPoint d))),
         pointMoved (points (moveLineSegmentBy w i d))
           (mkWirePoint (qp_add (toPoint (points w ! (nat i + 1))) (vec_toPoint d)))]"
    if "0 \<le> i \<and> i + 1 < int (length (points w))"
    using that moveLineSegmentBy_in_range(4)[of i w d] by blast
  show ?thesis
    using pre app rem rng seg removePoint_fields(1) removeObsoletePoints_emitted dup
    by blast
qed

text \<open>
  The amended C3 at concrete inputs: appending to a new wire, inserting at index 1 of
  the two-point wire, moving its segment, and removing duplicates from it.
\<close>

theorem pointMoved_emission_witness:
  "emitted (appendPoint (newWire (QPoint 0 0) 20) (QPoint 3 4)) =
     [pointMoved [mkWirePoint (QPoint 3 4)] (mkWirePoint (QPoint 3 4))] \<and>
   map sig_point (drop 2 (emitted (insertPoint segmentWire 1 (QPoint 7 7)))) = [mkWirePoint (QPoint 7 7)] \<and>
   map toPoint (points (insertPoint segmentWire 1 (QPoint 7 7))) = [QPoint 0 0, QPoint 7 7, QPoint 1 0] \<and>
   map sig_point (drop 2 (emitted (moveLineSegmentBy segmentWire 0 (QVector2D 0 1))))
     = [mkWirePoint (QPoint 0 1), mkWirePoint (QPoint 1 1)] \<and>
   map_option (\<lambda>r. emitted (fst r)) (removeDuplicatePoints segmentWire) = Some (emitted segmentWire)"
proof -
  have h: "0 \<le> (1::int) \<and> 1 < int (length (points segmentWire))" by code_simp
  have h0: "0 \<le> (0::int) \<and> 0 + 1 < int (length (points segmentWire))" by code_simp
  note t = pointMoved_emission[of "newWire (QPoint 0 0) 20" "QPoint 3 4" 0 "QVector2D 0 1" True]
  note u = pointMoved_emission[of segmentWire "QPoint 7 7" 1 "QVector2D 0 1" True]
  note v = pointMoved_emission[of segmentWire "QPoint 7 7" 0 "QVector2D 0 1" True]
  have a: "emitted (appendPoint (newWire (QPoint 0 0) 20) (QPoint 3 4)) =
     [pointMoved [mkWirePoint (QPoint 3 4)] (mkWirePoint (QPoint 3 4))]"
    using t by (simp add: newWire_def qp_sub_def)
  have ins: "emitted (insertPoint segmentWire 1 (QPoint 7 7)) =
        emitted segmentWire @ [pointMoved (points (insertPoint segmentWire 1 (QPoint 7 7)))
           (mkWirePoint (qp_sub (QPoint 7 7) (gridPoint segmentWire)))]"
    using u h by blast
  have len: "length (emitted segmentWire) = 2" by code_simp
  have gp: "qp_sub (QPoint 7 7) (gridPoint segmentWire) = QPoint 7 7" by code_simp
  have b: "map sig_point (drop 2 (emitted (insertPoint segmentWire 1 (QPoint 7 7)))) = [mkWirePoint (QPoint 7 7)]"
    unfolding ins using len gp by simp
  have c: "map toPoint (points (insertPoint segmentWire 1 (QPoint 7 7))) = [QPoint 0 0, QPoint 7 7, QPoint 1 0]"
    by code_simp
  have mv: "emitted (moveLineSegmentBy segmentWire 0 (QVector2D 0 1)) =
        emitted segmentWire @
        [pointMoved (points (movePointBy segmentWire 0 (QVector2D 0 1)))
           (mkWirePoint (qp_add (toPoint (points segmentWire ! nat 0)) (vec_toPoint (QVector2D 0 1)))),
         pointMoved (points (moveLineSegmentBy segmentWire 0 (QVector2D 0 1)))
           (mkWirePoint (qp_add (toPoint (points segmentWire ! (nat 0 + 1))) (vec_toPoint (QVector2D 0 1))))]"
    using v h0 by blast
  have e0: "qp_add (toPoint (points segmentWire ! nat 0)) (vec_toPoint (QVector2D 0 1)) = QPoint 0 1"
    and e1: "qp_add (toPoint (points segmentWire ! (nat 0 + 1))) (vec_toPoint (QVector2D 0 1)) = QPoint 1 1"
    by code_simp+
  have m: "map sig_point (drop 2 (emitted (moveLineSegmentBy segmentWire 0 (QVector2D 0 1))))
     = [mkWirePoint (QPoint 0 1), mkWirePoint (QPoint 1 1)]"
    unfolding mv e0 e1 using len by simp
  have "\<exists>r. removeDuplicatePoints segmentWire = Some r \<and> emitted (fst r) = emitted segmentWire"
    using v by blast
  then have d: "map_option (\<lambda>r. emitted (fst r)) (removeDuplicatePoints segmentWire) = Some (emitted segmentWire)"
    by auto
  show ?thesis using a b c m d by blast
qed

text \<open>
  C3 as stated fails: removing the first point, the last point or the point at
  \<open>(1,0)\<close> from the two-point wire, and flagging its first point as a junction,
  each change the points and emit no signal.
\<close>

theorem pointMoved_emission_counterexample:
  "points (removeFirstPoint segmentWire) \<noteq> points segmentWire \<and>
   emitted (removeFirstPoint segmentWire) = emitted segmentWire \<and>
   points (removeLastPoint segmentWire) \<noteq> points segmentWire \<and>
   emitted (removeLastPoint segmentWire) = emitted segmentWire \<and>
   points (removePoint segmentWire (QPoint 1 0)) \<noteq> points segmentWire \<and>
   emitted (removePoint segmentWire (QPoint 1 0)) = emitted segmentWire \<and>
   points (setPointIsJunction segmentWire 0 True) \<noteq> points segmentWire \<and>
   emitted (setPointIsJunction segmentWire 0 True) = emitted segmentWire"
  by code_simp

text \<open>
  C4 fails on the code. \<open>removeObsoletePoints\<close> hands each obsolete point, which is
  relative to the wire's grid position, to \<open>removePoint\<close>, which takes an absolute
  position and subtracts the grid position again. On a wire at \<open>(1,1)\<close> whose points
  are \<open>(0,0), (0,5), (0,10)\<close>, stored or absolute, the middle point is found obsolete,
  nothing is removed, and 1 is returned.
\<close>

theorem removeObsoletePoints_moved_wire:
  "map toPoint (points (straightWire (QPoint 1 1))) = [QPoint 0 0, QPoint 0 5, QPoint 0 10] \<and>
   map toPoint (points (fst (removeObsoletePoints (straightWire (QPoint 1 1)))))
     = [QPoint 0 0, QPoint 0 5, QPoint 0 10] \<and>
   snd (removeObsoletePoints (straightWire (QPoint 1 1))) = 1 \<and>
   absolutePoints (straightWireAbsolute (QPoint 1 1)) = [QPoint 0 0, QPoint 0 5, QPoint 0 10] \<and>
   absolutePoints (fst (removeObsoletePoints (straightWireAbsolute (QPoint 1 1))))
     = [QPoint 0 0, QPoint 0 5, QPoint 0 10] \<and>
   snd (removeObsoletePoints (straightWireAbsolute (QPoint 1 1))) = 1"
  by code_simp

text \<open>
  C5 fails on the code. \<open>removePoint\<close> removes every point at the given position. On
  the wire \<open>(0,0), (0,5), (0,10), (0,5)\<close> the single pass marks the point at index 1
  only, the removal takes the points at index 1 and at index 3, and the result is 1
  for two removed points. On the straight wire at \<open>(1,1)\<close> the result is 1 for no
  removed point.
\<close>

theorem removeObsoletePoints_count_mismatch:
  "map toPoint (points doubledWire) = [QPoint 0 0, QPoint 0 5, QPoint 0 10, QPoint 0 5] \<and>
   map toPoint (pointsToRemove (points doubledWire)) = [QPoint 0 5] \<and>
   map toPoint (points (fst (removeObsoletePoints doubledWire))) = [QPoint 0 0, QPoint 0 10] \<and>
   snd (removeObsoletePoints doubledWire) = 1 \<and>
   length (points (straightWire (QPoint 1 1))) = 3 \<and>
   length (points (fst (removeObsoletePoints (straightWire (QPoint 1 1))))) = 3 \<and>
   snd (removeObsoletePoints (straightWire (QPoint 1 1))) = 1"
  by code_simp

text \<open>
  C6 fails on the code. On \<open>wire9\<close>, with nine points, \<open>removeDuplicatePoints\<close>
  leaves one point and returns 9: one call of \<open>removeOne\<close> finds nothing to remove (at
  slot 3 of the first round the slot holds \<open>(1,1)\<close>, whose last occurrence the call
  before has removed) and is counted all the same.
\<close>

theorem removeDuplicatePoints_count_mismatch:
  "length (points wire9) = 9 \<and>
   map_option (\<lambda>r. (map toPoint (points (fst r)), snd r)) (removeDuplicatePoints wire9)
   = Some ([QPoint 1 0], 9)"
  by code_simp

text \<open>
  C7. \<open>insertPoint\<close> with an index below zero or not below the number of points
  returns at once: the wire is the same in every field (points, their order and
  junction flags, rectangle, signal log), and the index equal to the number of
  points is among the rejected ones.
\<close>

theorem insertPoint_out_of_range:
  "index < 0 \<or> index \<ge> int (length (points w)) \<Longrightarrow> insertPoint w index p = w"
  by (simp add: insertPoint_def)

text \<open>C7 at the index equal to the number of points, and at a negative index.\<close>

theorem insertPoint_out_of_range_witness:
  "insertPoint segmentWire 2 (QPoint 5 5) = segmentWire \<and>
   insertPoint segmentWire (- 1) (QPoint 5 5) = segmentWire \<and>
   int (length (points segmentWire)) = 2"
proof -
  have len: "int (length (points segmentWire)) = 2" by code_simp
  show ?thesis
    using insertPoint_out_of_range[of 2 segmentWire "QPoint 5 5"]
      insertPoint_out_of_range[of "- 1" segmentWire "QPoint 5 5"] len
    by simp
qed

text \<open>
  C8, as amended. A segment is being dragged: no point is grabbed and the grabbed
  segment index \<open>i\<close> is the index of a segment, which is horizontal. Then the pointer
  move succeeds, and the end points at \<open>i\<close> and \<open>i + 1\<close> are moved by the vertical
  part of the pointer's grid delta as a \<^verbatim>\<open>QVector2D\<close> carries it, in single
  precision; their x coordinates are unchanged. When the delta is purely vertical and
  at most \<open>2 ^ 23 = 8388608\<close> in absolute value, both end points are moved by
  exactly that delta; when it is purely horizontal, no position changes.
\<close>

theorem mouseMoveEvent_horizontal_segment:
  assumes np: "pointToMoveIndex w \<le> - 1"
    and seg: "lineSegmentToMoveIndex w = i"
    and i0: "0 \<le> i"
    and i1: "i + 1 < int (length (points w))"
    and hor: "isHorizontal (lineSegments w ! nat i)"
  shows "\<exists>w'. mouseMoveEvent w curPos ctrlPressed = Inr w' \<and>
      toPoint (points w' ! nat i) =
        qp_add (toPoint (points w ! nat i))
               (vec_toPoint (vec_of_ints 0 (py curPos - py (prevMousePos w)))) \<and>
      toPoint (points w' ! (nat i + 1)) =
        qp_add (toPoint (points w ! (nat i + 1)))
               (vec_toPoint (vec_of_ints 0 (py curPos - py (prevMousePos w)))) \<and>
      px (toPoint (points w' ! nat i)) = px (toPoint (points w ! nat i)) \<and>
      px (toPoint (points w' ! (nat i + 1))) = px (toPoint (points w ! (nat i + 1))) \<and>
      (px curPos = px (prevMousePos w) \<and> \<bar>py curPos - py (prevMousePos w)\<bar> \<le> 8388608 \<longrightarrow>
         toPoint (points w' ! nat i) =
           qp_add (toPoint (points w ! nat i)) (qp_sub curPos (prevMousePos w)) \<and>
         toPoint (points w' ! (nat i + 1)) =
           qp_add (toPoint (points w ! (nat i + 1))) (qp_sub curPos (prevMousePos w))) \<and>
      (py curPos = py (prevMousePos w) \<longrightarrow> map toPoint (points w') = map toPoint (points w))"
proof -
  define dy where "dy = py curPos - py (prevMousePos w)"
  define w' where "w' = (moveLineSegmentBy w i (vec_of_ints 0 dy))\<lparr>prevMousePos := curPos\<rparr>"
  from i0 i1 have n: "nat i < length (points w) - 1" and n1: "nat i + 1 < length (points w)"
    and n0: "nat i < length (points w)"
    by (simp_all add: nat_less_iff)
  have line: "lineSegments w ! nat i =
       Line (qp_add (gridPoint w) (toPoint (points w ! nat i)))
            (qp_add (gridPoint w) (toPoint (points w ! (nat i + 1))))"
    using n by (auto simp add: lineSegments_def)
  have res: "mouseMoveEvent w curPos ctrlPressed = Inr w'"
    using mouseMoveEvent_segment[of w curPos ctrlPressed] np i0 i1 hor
    by (simp add: seg line w'_def dy_def)
  have pts: "points w' =
        (points w)[nat i := mkWirePoint (qp_add (toPoint (points w ! nat i)) (vec_toPoint (vec_of_ints 0 dy))),
                   nat i + 1 := mkWirePoint (qp_add (toPoint (points w ! (nat i + 1))) (vec_toPoint (vec_of_ints 0 dy)))]"
    by (simp add: w'_def moveLineSegmentBy_in_range(3)[OF i0 i1])
  have a: "toPoint (points w' ! nat i) =
      qp_add (toPoint (points w ! nat i)) (vec_toPoint (vec_of_ints 0 dy))"
    using n0 by (simp add: pts mkWirePoint_def)
  have b: "toPoint (points w' ! (nat i + 1)) =
      qp_add (toPoint (points w ! (nat i + 1))) (vec_toPoint (vec_of_ints 0 dy))"
    using n1 by (simp add: pts mkWirePoint_def)
  have xa: "px (toPoint (points w' ! nat i)) = px (toPoint (points w ! nat i))"
    unfolding a by (simp add: qp_add_def px_vec_toPoint_vertical)
  have xb: "px (toPoint (points w' ! (nat i + 1))) = px (toPoint (points w ! (nat i + 1)))"
    unfolding b by (simp add: qp_add_def px_vec_toPoint_vertical)
  have vert: "vec_toPoint (vec_of_ints 0 dy) = qp_sub curPos (prevMousePos w)"
    if "px curPos = px (prevMousePos w) \<and> \<bar>py curPos - py (prevMousePos w)\<bar> \<le> 8388608"
    using that by (simp add: vec_toPoint_vertical dy_def qp_sub_def)
  have still: "map toPoint (points w') = map toPoint (points w)" if "py curPos = py (prevMousePos w)"
  proof -
    from that have z: "dy = 0" by (simp add: dy_def)
    have v0: "vec_toPoint (vec_of_ints 0 0) = QPoint 0 0" by (simp add: vec_toPoint_vertical)
    have "map toPoint (points w') =
          (map toPoint (points w))[nat i := map toPoint (points w) ! nat i,
                                   nat i + 1 := map toPoint (points w) ! (nat i + 1)]"
      using n0 n1 by (simp add: pts z v0 qp_add_zero map_update mkWirePoint_def)
    then show ?thesis by (simp only: list_update_id)
  qed
  show ?thesis
    using res a b xa xb vert still unfolding dy_def by (intro exI[of _ w']) simp
qed

text \<open>
  The amended C8 on \<open>dragWire\<close>: the pointer goes from \<open>(2,0)\<close> to \<open>(2,3)\<close>, and
  from \<open>(2,0)\<close> to \<open>(4,0)\<close>.
\<close>

theorem mouseMoveEvent_horizontal_segment_witness:
  "(\<exists>w'. mouseMoveEvent dragWire (QPoint 2 3) False = Inr w' \<and>
      toPoint (points w' ! 0) = QPoint 0 3 \<and> toPoint (points w' ! 1) = QPoint 5 3) \<and>
   (\<exists>w'. mouseMoveEvent dragWire (QPoint 4 0) False = Inr w' \<and>
      map toPoint (points w') = [QPoint 0 0, QPoint 5 0, QPoint 5 5])"
proof -
  have np: "pointToMoveIndex dragWire \<le> - 1" by code_simp
  have seg: "lineSegmentToMoveIndex dragWire = 0" by code_simp
  have i1: "(0::int) + 1 < int (length (points dragWire))" by code_simp
  have hor: "isHorizontal (lineSegments dragWire ! nat 0)" by code_simp
  have prev: "prevMousePos dragWire = QPoint 2 0" by code_simp
  have p0: "toPoint (points dragWire ! 0) = QPoint 0 0" by code_simp
  have p1: "toPoint (points dragWire ! Suc 0) = QPoint 5 0" by code_simp
  have pts: "map toPoint (points dragWire) = [QPoint 0 0, QPoint 5 0, QPoint 5 5]" by code_simp
  from mouseMoveEvent_horizontal_segment[OF np seg _ i1 hor, of "QPoint 2 3" False]
  have a: "\<exists>w'. mouseMoveEvent dragWire (QPoint 2 3) False = Inr w' \<and>
      toPoint (points w' ! 0) = QPoint 0 3 \<and> toPoint (points w' ! 1) = QPoint 5 3"
    by (auto simp add: prev p0 p1 qp_add_def qp_sub_def)
  from mouseMoveEvent_horizontal_segment[OF np seg _ i1 hor, of "QPoint 4 0" False]
  have b: "\<exists>w'. mouseMoveEvent dragWire (QPoint 4 0) False = Inr w' \<and>
      map toPoint (points w') = [QPoint 0 0, QPoint 5 0, QPoint 5 5]"
    by (auto simp add: prev pts)
  show ?thesis using a b by blast
qed

text \<open>
  C8 as stated fails. On \<open>dragWire\<close> the pointer goes from \<open>(2,0)\<close> to
  \<open>(2,16777217)\<close>, a purely vertical delta of \<open>2 ^ 24 + 1\<close>, which is not a
  \<^verbatim>\<open>float\<close>: the vector holds \<open>2 ^ 24\<close>, and the two end points of the grabbed
  segment go up by 16777216, not by the delta.
\<close>

theorem mouseMoveEvent_horizontal_segment_counterexample:
  "prevMousePos dragWire = QPoint 2 0 \<and>
   lineSegmentToMoveIndex dragWire = 0 \<and>
   isHorizontal (lineSegments dragWire ! 0) \<and>
   map toPoint (points dragWire) = [QPoint 0 0, QPoint 5 0, QPoint 5 5] \<and>
   map_sum id (\<lambda>w'. map toPoint (points w')) (mouseMoveEvent dragWire (QPoint 2 16777217) False)
     = Inr [QPoint 0 16777216, QPoint 5 16777216, QPoint 5 5]"
  by code_simp

text \<open>
  C9. The number of line segments is \<open>max (pointCount - 1) 0\<close>: none for an empty
  wire or a single point, one less than the number of points otherwise.
\<close>

theorem lineSegments_count:
  "int (length (lineSegments w)) = max (int (length (points w)) - 1) 0"
  by (simp add: lineSegments_def)

text \<open>
  C10, as amended. With an index in range, \<open>setPointIsJunction\<close> changes the
  junction flag of that point and recomputes the rectangle, nothing else: the number
  of points, every position, the order and every other flag are unchanged. The
  rectangle is the one recomputed from the unchanged positions, so it is unchanged
  whenever it was up to date before the call.
\<close>

theorem setPointIsJunction_frame:
  "0 \<le> i \<and> i < int (length (points w)) \<Longrightarrow>
     setPointIsJunction w i b =
       w\<lparr>points := (points w)[nat i := (points w ! nat i)\<lparr>isJunction := b\<rparr>],
         rect := rect (calculateBoundingRect w)\<rparr> \<and>
     length (points (setPointIsJunction w i b)) = length (points w) \<and>
     map toPoint (points (setPointIsJunction w i b)) = map toPoint (points w) \<and>
     (\<forall>j. j \<noteq> nat i \<longrightarrow> points (setPointIsJunction w i b) ! j = points w ! j) \<and>
     isJunction (points (setPointIsJunction w i b) ! nat i) = b \<and>
     (rect w = rect (calculateBoundingRect w) \<longrightarrow> rect (setPointIsJunction w i b) = rect w)"
proof -
  assume r: "0 \<le> i \<and> i < int (length (points w))"
  then have n: "nat i < length (points w)" by (simp add: nat_less_iff)
  define pts where "pts = (points w)[nat i := setIsJunction (points w ! nat i) b]"
  have pos: "map toPoint pts = map toPoint (points w)"
    unfolding pts_def by (rule map_toPoint_setIsJunction)
  have rc: "rect (calculateBoundingRect (w\<lparr>points := pts\<rparr>)) = rect (calculateBoundingRect w)"
    by (rule rect_calculateBoundingRect_positions) (simp_all add: pos)
  have "setPointIsJunction w i b = calculateBoundingRect (w\<lparr>points := pts\<rparr>)"
    using r by (simp add: setPointIsJunction_def update_def pts_def)
  also have "\<dots> = w\<lparr>points := pts, rect := rect (calculateBoundingRect (w\<lparr>points := pts\<rparr>))\<rparr>"
    by (simp add: calculateBoundingRect_def Let_def)
  finally have eq: "setPointIsJunction w i b = w\<lparr>points := pts, rect := rect (calculateBoundingRect w)\<rparr>"
    by (simp only: rc)
  show ?thesis
    using n pos by (simp add: eq) (simp add: pts_def setIsJunction_def)
qed

text \<open>The amended C10 on the two-point wire, whose rectangle is up to date.\<close>

theorem setPointIsJunction_frame_witness:
  "map toPoint (points (setPointIsJunction segmentWire 1 True)) = [QPoint 0 0, QPoint 1 0] \<and>
   map isJunction (points (setPointIsJunction segmentWire 1 True)) = [False, True] \<and>
   rect (setPointIsJunction segmentWire 1 True) = rect segmentWire"
proof -
  have h: "0 \<le> (1::int) \<and> 1 < int (length (points segmentWire))" by code_simp
  have fresh: "rect segmentWire = rect (calculateBoundingRect segmentWire)" by code_simp
  note t = setPointIsJunction_frame[OF h, of True]
  have a: "map toPoint (points (setPointIsJunction segmentWire 1 True)) = map toPoint (points segmentWire)"
    using t by blast
  have b: "points (setPointIsJunction segmentWire 1 True) =
             (points segmentWire)[nat 1 := (points segmentWire ! nat 1)\<lparr>isJunction := True\<rparr>]"
    using t by simp
  have c: "rect (setPointIsJunction segmentWire 1 True) = rect segmentWire"
    using t fresh by blast
  have a': "map toPoint (points segmentWire) = [QPoint 0 0, QPoint 1 0]" by code_simp
  have b': "map isJunction ((points segmentWire)[nat 1 := (points segmentWire ! nat 1)\<lparr>isJunction := True\<rparr>])
            = [False, True]" by code_simp
  show ?thesis using a a' b b' c by simp
qed

text \<open>
  C10 as stated fails where the stored rectangle is stale: \<open>setPointIsJunction\<close>
  replaces it. \<open>staleWire\<close> is such a state, and so is the wire that
  \<open>removeDuplicatePoints\<close> leaves behind on \<open>wire4\<close>.
\<close>

theorem setPointIsJunction_counterexample:
  "rect staleWire = QRectF (QPoint 0 0) (QPoint 180 180) \<and>
   rect (setPointIsJunction staleWire 0 True) = QRectF (QPoint 0 0) (QPoint 0 0) \<and>
   map_option (\<lambda>r. (map toPoint (points (fst r)), rect (fst r), rect (setPointIsJunction (fst r) 0 True)))
     (removeDuplicatePoints wire4)
   = Some ([QPoint 0 0], QRectF (QPoint 0 0) (QPoint 180 180), QRectF (QPoint 0 0) (QPoint 0 0))"
  by code_simp

end
